theory Spec2Isabelle
  imports Complex_Main "HOL-Library.Word" "HOL-Library.Multiset"
begin

section \<open>Common values\<close>

text \<open>
  Python exceptions are values.  A function that can raise returns \<open>py_error + 'a\<close>,
  with \<open>Inl\<close> for the exception.
\<close>

datatype py_error =
  TypeError | AttributeError | IndexError | ValueError | RuntimeError | UnboundLocalError

text \<open>
  An audio chunk is the byte string PyAudio delivers for a mono \<open>paInt16\<close> stream.  It
  always holds whole frames, so it is represented by its little-endian 16-bit samples.
\<close>

type_synonym chunk = "16 word list"

datatype stream_flag = paContinue

text \<open>What a handler does to the world outside the client, in the order it happens.\<close>

datatype event =
    Infer "real list"          \<comment> \<open>\<open>engine.infer(inp)\<close> was called with this window\<close>
  | LogInfo string             \<comment> \<open>a record reached the logging handlers\<close>
  | Print string               \<comment> \<open>text written to the console\<close>
  | Call nat "int list"        \<comment> \<open>listener number \<open>n\<close> was called with the sequence\<close>
  | PyAudioInit                \<comment> \<open>\<open>pyaudio.PyAudio()\<close>: the audio subsystem handle was opened\<close>
  | GetDeviceCount
  | GetDeviceInfo nat
  | OpenStream nat int         \<comment> \<open>input device index, frames per buffer\<close>
  | StartStream

section \<open>Floating point\<close>

text \<open>
  A binary floating-point format with \<open>p\<close> bits of precision rounds a real number to the
  nearest multiple of the unit of its binade, ties to the even multiple.  \<open>binade n x\<close>
  finds the exponent \<open>e\<close> with \<open>2 ^ e \<le> x < 2 ^ (e + 1)\<close> for a positive \<open>x\<close>, looking
  at most \<open>n\<close> binades away from 1.  Overflow and subnormal numbers are outside this
  model: it is used on values in the normal range only.
\<close>

fun binade :: "nat \<Rightarrow> real \<Rightarrow> int" where
  "binade 0 x = 0"
| "binade (Suc n) x =
     (if 2 \<le> x then binade n (x / 2) + 1 else if x < 1 then binade n (x * 2) - 1 else 0)"

definition pow2 :: "int \<Rightarrow> real" where
  "pow2 e = (if 0 \<le> e then 2 ^ nat e else 1 / 2 ^ nat (- e))"

definition round_even :: "real \<Rightarrow> int" where
  "round_even y =
     (let f = \<lfloor>y\<rfloor>
      in if y - of_int f < 1 / 2 then f
         else if 1 / 2 < y - of_int f then f + 1
         else if even f then f else f + 1)"

definition fl :: "nat \<Rightarrow> real \<Rightarrow> real" where
  "fl p x =
     (if x = 0 then 0
      else let u = pow2 (binade 300 \<bar>x\<bar> - int p + 1)
           in of_int (round_even (x / u)) * u)"

text \<open>torch's \<open>float32\<close> and Python's \<open>float\<close>.\<close>

definition f32 :: "real \<Rightarrow> real" where
  "f32 x = fl 24 x"

definition f64 :: "real \<Rightarrow> real" where
  "f64 x = fl 53 x"

section \<open>Strings: \<open>' '.join(...)\<close> and \<open>str.title()\<close>\<close>

text \<open>
  \<open>vocab[x]\<close> on a Python list: a negative index counts from the end, an index out of
  range raises \<open>IndexError\<close>.
\<close>

definition getitem :: "'a list \<Rightarrow> int \<Rightarrow> py_error + 'a" where
  "getitem xs i =
     (if 0 \<le> i \<and> i < int (length xs) then Inr (xs ! nat i)
      else if i < 0 \<and> - int (length xs) \<le> i then Inr (xs ! nat (int (length xs) + i))
      else Inl IndexError)"

fun lookup_all :: "string list \<Rightarrow> int list \<Rightarrow> py_error + string list" where
  "lookup_all vocab [] = Inr []"
| "lookup_all vocab (x # xs) =
     (case getitem vocab x of
        Inl e \<Rightarrow> Inl e
      | Inr w \<Rightarrow> (case lookup_all vocab xs of Inl e \<Rightarrow> Inl e | Inr ws \<Rightarrow> Inr (w # ws)))"

fun join_space :: "string list \<Rightarrow> string" where
  "join_space [] = []"
| "join_space [w] = w"
| "join_space (w # ws) = w @ '' '' @ join_space ws"

definition is_upper :: "char \<Rightarrow> bool" where
  "is_upper c = (65 \<le> (of_char c :: nat) \<and> (of_char c :: nat) \<le> 90)"

definition is_lower :: "char \<Rightarrow> bool" where
  "is_lower c = (97 \<le> (of_char c :: nat) \<and> (of_char c :: nat) \<le> 122)"

definition to_upper :: "char \<Rightarrow> char" where
  "to_upper c = (if is_lower c then char_of ((of_char c :: nat) - 32) else c)"

definition to_lower :: "char \<Rightarrow> char" where
  "to_lower c = (if is_upper c then char_of ((of_char c :: nat) + 32) else c)"

text \<open>
  \<open>str.title()\<close> on ASCII text: a letter that follows a letter is lower-cased, any other
  letter is upper-cased; \<open>prev\<close> says whether the previous character was a letter.
\<close>

fun title_from :: "bool \<Rightarrow> string \<Rightarrow> string" where
  "title_from prev [] = []"
| "title_from prev (c # cs) =
     (if prev then to_lower c else to_upper c) # title_from (is_upper c \<or> is_lower c) cs"

definition title :: "string \<Rightarrow> string" where
  "title s = title_from False s"

definition phrase_of :: "string list \<Rightarrow> int list \<Rightarrow> py_error + string" where
  "phrase_of vocab sequence =
     (case lookup_all vocab sequence of Inl e \<Rightarrow> Inl e | Inr ws \<Rightarrow> Inr (title (join_space ws)))"

section \<open>howl/client/howl\_client.py\<close>

text \<open>
  A compute device as \<open>torch.device\<close> builds it.  \<open>Cuda n\<close> stands for
  \<open>torch.device('cuda:n')\<close>.
\<close>

datatype pyval = Self | IntV int

datatype device = Cpu | Cuda int

text \<open>
  The fields of a \<open>HowlClient\<close>.  The engine is external: its state has type \<open>'e\<close>, and
  the handler receives \<open>engine.infer\<close> (which returns the detection flag and the engine's
  new state) and \<open>engine.sequence\<close> as functions.  The context is represented by its
  vocabulary.  Listeners are numbered callbacks; calling one is the event \<open>Call\<close>.
\<close>

record 'e howl_client =
  listeners :: "nat list"
  chunk_size :: int
  device :: device
  engine :: "'e option"
  ctx :: "string list option"
  audio_buf :: "chunk list"
  last_data :: chunk

text \<open>
  \<open>_get_device\<close> is declared in the class body with the single parameter \<open>device\<close> and
  without \<open>@staticmethod\<close> (the decorator sits on \<open>list_pretrained\<close>).  The model takes
  the list of positional arguments of the call: any number other than one is Python's
  \<open>TypeError\<close>.  \<open>torch.device\<close> refuses with \<open>RuntimeError\<close> a device string with a
  negative index, and the string that \<open>'cuda:{}'.format\<close> makes of an object that is no
  integer.  The upper limit torch puts on the index is not modelled.
\<close>

fun get_device :: "pyval list \<Rightarrow> py_error + device" where
  "get_device [IntV d] =
     (if d = - 1 then Inr Cpu else if d < 0 then Inl RuntimeError else Inr (Cuda d))"
| "get_device [Self] = Inl RuntimeError"
| "get_device args = Inl TypeError"

text \<open>
  \<open>__init__\<close>: the call \<open>self._get_device(device)\<close> goes through the instance, so the
  function receives \<open>self\<close> and \<open>device\<close>.  The events tell whether
  \<open>pyaudio.PyAudio()\<close> was reached.
\<close>

definition init ::
  "'e option \<Rightarrow> string list option \<Rightarrow> int \<Rightarrow> int \<Rightarrow> event list \<times> (py_error + 'e howl_client)" where
  "init eng context dev csize =
     (case get_device [Self, IntV dev] of
        Inl e \<Rightarrow> ([], Inl e)
      | Inr d \<Rightarrow> ([PyAudioInit],
                  Inr \<lparr>listeners = [], chunk_size = csize, device = d, engine = eng,
                       ctx = context, audio_buf = [],
                       last_data = replicate (nat csize) 0\<rparr>))"

definition add_listener :: "'e howl_client \<Rightarrow> nat \<Rightarrow> 'e howl_client" where
  "add_listener c l = c\<lparr>listeners := listeners c @ [l]\<rparr>"

text \<open>
  \<open>np.frombuffer(audio_data, dtype=np.int16).astype(np.float) / 32767\<close>, in exact
  arithmetic (the rounding to float32 is not modelled).
\<close>

definition normalise :: "16 word list \<Rightarrow> real list" where
  "normalise audio_data = map (\<lambda>w. real_of_int (sint w) / 32767) audio_data"

text \<open>
  The phrase of the client: \<open>' '.join(self.ctx.vocab[x] for x in self.engine.sequence).title()\<close>.
  The generator reads \<open>self.ctx.vocab\<close> once for each element of the sequence: an unset
  context raises \<open>AttributeError\<close> at the first element, and is not looked at when the
  sequence is empty.
\<close>

definition client_phrase :: "string list option \<Rightarrow> int list \<Rightarrow> py_error + string" where
  "client_phrase context sequence =
     (case sequence of
        [] \<Rightarrow> Inr (title (join_space []))
      | x # xs \<Rightarrow>
          (case context of
             None \<Rightarrow> Inl AttributeError
           | Some vocab \<Rightarrow> phrase_of vocab sequence))"

text \<open>
  \<open>HowlClient._on_audio\<close>.  Assignments made before an exception stay, so the client
  after the call is returned beside the outcome.  \<open>info_enabled\<close> says whether the root
  logger is enabled for level INFO: \<open>logging.info(msg, end='\r')\<close> returns without
  doing anything when it is not, and otherwise passes the keyword \<open>end\<close> on to
  \<open>Logger._log\<close>, which does not accept it and raises \<open>TypeError\<close>.
\<close>

definition on_audio ::
  "('e \<Rightarrow> real list \<Rightarrow> bool \<times> 'e) \<Rightarrow> ('e \<Rightarrow> int list) \<Rightarrow> bool \<Rightarrow> 'e howl_client \<Rightarrow> chunk
     \<Rightarrow> 'e howl_client \<times> event list \<times> (py_error + chunk \<times> stream_flag)" where
  "on_audio infer sequence info_enabled c in_data =
     (let data_ok = (in_data, paContinue);
          c1 = c\<lparr>last_data := in_data, audio_buf := audio_buf c @ [in_data]\<rparr>
      in if length (audio_buf c1) \<noteq> 16 then (c1, [], Inr data_ok)
         else
           let audio_data = concat (audio_buf c1);
               c2 = c1\<lparr>audio_buf := drop 2 (audio_buf c1)\<rparr>;
               inp = normalise audio_data
           in case engine c2 of
                None \<Rightarrow> (c2, [], Inl AttributeError)
              | Some e \<Rightarrow>
                  let (hit, e') = infer e inp;
                      c3 = c2\<lparr>engine := Some e'\<rparr>
                  in if hit then
                       (case client_phrase (ctx c3) (sequence e') of
                          Inl err \<Rightarrow> (c3, [Infer inp], Inl err)
                        | Inr phrase \<Rightarrow>
                            if info_enabled then (c3, [Infer inp], Inl TypeError)
                            else (c3, Infer inp # map (\<lambda>lis. Call lis (sequence e')) (listeners c3),
                                  Inr data_ok))
                     else (c3, [Infer inp], Inr data_ok))"

text \<open>
  The device loop of \<open>start\<close>: device \<open>idx\<close> is asked for its name, and the loop breaks
  at the first one called \<open>pulse\<close>.  \<open>names\<close> are the names of the devices from \<open>idx\<close>
  on; the result is the events and the index found, if any.
\<close>

fun find_pulse :: "nat \<Rightarrow> string list \<Rightarrow> event list \<times> nat option" where
  "find_pulse idx [] = ([], None)"
| "find_pulse idx (name # names) =
     (if name = ''pulse'' then ([GetDeviceInfo idx], Some idx)
      else (let (evs, r) = find_pulse (Suc idx) names in (GetDeviceInfo idx # evs, r)))"

text \<open>
  \<open>HowlClient.start\<close>, given the names of the audio devices.  Failures inside PyAudio
  are outside this model.
\<close>

definition start :: "'e howl_client \<Rightarrow> string list \<Rightarrow> event list \<times> (py_error + nat)" where
  "start c names =
     (if engine c = None then ([], Inl AttributeError)
      else if ctx c = None then ([], Inl AttributeError)
      else
        let (evs, found) = find_pulse 0 names;
            chosen_idx = (case found of None \<Rightarrow> 0 | Some idx \<Rightarrow> idx)
        in (GetDeviceCount # evs @ [OpenStream chosen_idx (chunk_size c), StartStream],
            Inr chosen_idx))"

section \<open>howl/run/demo.py\<close>

record 'e inference_client =
  d_engine :: 'e
  d_chunk_size :: int
  d_words :: "string list"
  d_audio_buf :: "chunk list"
  d_last_data :: chunk

text \<open>\<open>InferenceClient._on_audio\<close>; \<open>print(s, end='\r')\<close> writes \<open>s\<close> and a carriage return.\<close>

definition demo_on_audio ::
  "('e \<Rightarrow> real list \<Rightarrow> bool \<times> 'e) \<Rightarrow> ('e \<Rightarrow> int list) \<Rightarrow> 'e inference_client \<Rightarrow> chunk
     \<Rightarrow> 'e inference_client \<times> event list \<times> (py_error + chunk \<times> stream_flag)" where
  "demo_on_audio infer sequence c in_data =
     (let data_ok = (in_data, paContinue);
          c1 = c\<lparr>d_last_data := in_data, d_audio_buf := d_audio_buf c @ [in_data]\<rparr>
      in if length (d_audio_buf c1) \<noteq> 16 then (c1, [], Inr data_ok)
         else
           let audio_data = concat (d_audio_buf c1);
               c2 = c1\<lparr>d_audio_buf := drop 2 (d_audio_buf c1)\<rparr>;
               inp = normalise audio_data;
               (hit, e') = infer (d_engine c2) inp;
               c3 = c2\<lparr>d_engine := e'\<rparr>
           in if hit then
                (case phrase_of (d_words c3) (sequence e') of
                   Inl err \<Rightarrow> (c3, [Infer inp], Inl err)
                 | Inr phrase \<Rightarrow>
                     (c3, [Infer inp, Print (phrase @ '' detected'' @ [CHR 0x0D])], Inr data_ok))
              else (c3, [Infer inp, Print (replicate 32 (CHR '' '') @ [CHR 0x0D])], Inr data_ok))"

section \<open>Delivering a sequence of chunks\<close>

text \<open>
  Both classes hand their bound method \<open>self._on_audio\<close> to \<open>self._audio.open\<close> as
  \<open>stream_callback\<close>.  PyAudio calls the stream callback, for each chunk, with four
  positional arguments: \<open>in_data\<close>, \<open>frame_count\<close>, \<open>time_info\<close> and \<open>status\<close>.
\<close>

datatype cb_arg = FrameCount int | TimeInfo | StatusFlags int

definition pyaudio_args :: "chunk \<Rightarrow> cb_arg list" where
  "pyaudio_args in_data = [FrameCount (int (length in_data)), TimeInfo, StatusFlags 0]"

text \<open>
  \<open>HowlClient._on_audio\<close> is declared with the parameters \<open>(self, in_data)\<close>.  A call
  of the bound method with \<open>in_data\<close> and any further positional argument raises
  \<open>TypeError\<close> before the body runs.
\<close>

fun stream_callback ::
  "('e \<Rightarrow> real list \<Rightarrow> bool \<times> 'e) \<Rightarrow> ('e \<Rightarrow> int list) \<Rightarrow> bool \<Rightarrow> 'e howl_client \<Rightarrow> chunk
     \<Rightarrow> cb_arg list \<Rightarrow> 'e howl_client \<times> event list \<times> (py_error + chunk \<times> stream_flag)" where
  "stream_callback infer sequence info_enabled c in_data [] =
     on_audio infer sequence info_enabled c in_data"
| "stream_callback infer sequence info_enabled c in_data further = (c, [], Inl TypeError)"

text \<open>
  \<open>InferenceClient._on_audio\<close> is declared with the parameters
  \<open>(self, in_data, frame_count, time_info, status)\<close>; the body uses \<open>in_data\<close> only.
\<close>

fun demo_stream_callback ::
  "('e \<Rightarrow> real list \<Rightarrow> bool \<times> 'e) \<Rightarrow> ('e \<Rightarrow> int list) \<Rightarrow> 'e inference_client \<Rightarrow> chunk
     \<Rightarrow> cb_arg list \<Rightarrow> 'e inference_client \<times> event list \<times> (py_error + chunk \<times> stream_flag)" where
  "demo_stream_callback infer sequence c in_data [frame_count, time_info, status] =
     demo_on_audio infer sequence c in_data"
| "demo_stream_callback infer sequence c in_data other = (c, [], Inl TypeError)"

text \<open>
  The capture thread calls the stream callback once per chunk, in arrival order.  \<open>feed\<close>
  returns the client after the last chunk and, for each chunk, the events of its call.
  What PyAudio does with a stream whose callback has raised is outside this model.
\<close>

fun feed ::
  "('e \<Rightarrow> real list \<Rightarrow> bool \<times> 'e) \<Rightarrow> ('e \<Rightarrow> int list) \<Rightarrow> bool \<Rightarrow> 'e howl_client \<Rightarrow> chunk list
     \<Rightarrow> 'e howl_client \<times> event list list" where
  "feed infer sequence info_enabled c [] = (c, [])"
| "feed infer sequence info_enabled c (x # xs) =
     (let (c', evs, out) = stream_callback infer sequence info_enabled c x (pyaudio_args x);
          (c'', rest) = feed infer sequence info_enabled c' xs
      in (c'', evs # rest))"

fun demo_feed ::
  "('e \<Rightarrow> real list \<Rightarrow> bool \<times> 'e) \<Rightarrow> ('e \<Rightarrow> int list) \<Rightarrow> 'e inference_client \<Rightarrow> chunk list
     \<Rightarrow> 'e inference_client \<times> event list list" where
  "demo_feed infer sequence c [] = (c, [])"
| "demo_feed infer sequence c (x # xs) =
     (let (c', evs, out) = demo_stream_callback infer sequence c x (pyaudio_args x);
          (c'', rest) = demo_feed infer sequence c' xs
      in (c'', evs # rest))"

text \<open>
  The length of the buffer after one more chunk, from its length before: the append, then
  the drop of two entries when the length has reached 16.
\<close>

fun buf_step :: "nat \<Rightarrow> nat" where
  "buf_step b = (if Suc b = 16 then 14 else Suc b)"

text \<open>The number of inference calls among the events of one handler call.\<close>

fun is_infer :: "event \<Rightarrow> bool" where
  "is_infer (Infer inp) = True"
| "is_infer ev = False"

definition infer_calls :: "event list \<Rightarrow> nat" where
  "infer_calls evs = length (filter is_infer evs)"

section \<open>ww4ff/data/transform/base.py: ZmuvTransform\<close>

text \<open>
  The three buffers of a \<open>ZmuvTransform\<close>.  Values are real numbers: the arithmetic of
  the model is exact, the rounding of floating point is not modelled.  A tensor is the
  list of its elements, which is all that \<open>sum\<close> and \<open>numel\<close> look at.
\<close>

record zmuv =
  total_n :: real
  mean :: real
  mean2 :: real

definition zmuv_init :: zmuv where
  "zmuv_init = \<lparr>total_n = 0, mean = 0, mean2 = 0\<rparr>"

text \<open>
  What a tensor operation can yield besides a real number.  torch does not raise on a
  division by zero or on the square root of a negative number: it yields \<open>inf\<close>,
  \<open>-inf\<close> or \<open>nan\<close>.
\<close>

datatype tval = Num real | PosInf | NegInf | NaN

text \<open>
  \<open>update\<close>.  With a mask, the data is multiplied by it element by element (the mask has
  the shape of the data) and the count is the sum of the mask.  Both quotients have the
  divisor \<open>total + mask_size\<close>.  When that is 0 the new \<open>mean\<close> and \<open>mean2\<close> are \<open>nan\<close>
  or infinite, and stay so in every later update (\<open>nan * total\<close> is \<open>nan\<close>): the result
  \<open>None\<close> stands for statistics that are no numbers any more.
\<close>

definition update :: "zmuv \<Rightarrow> real list \<Rightarrow> real list option \<Rightarrow> zmuv option" where
  "update s data msk =
     (let (masked, mask_size) =
            (case msk of
               None \<Rightarrow> (data, real (length data))
             | Some m \<Rightarrow> (map2 (*) data m, sum_list m))
      in if total_n s + mask_size = 0 then None
         else Some \<lparr>total_n = total_n s + mask_size,
                    mean = (sum_list masked + mean s * total_n s) / (total_n s + mask_size),
                    mean2 = (sum_list (map (\<lambda>x. x\<^sup>2) masked) + mean2 s * total_n s)
                              / (total_n s + mask_size)\<rparr>)"

fun initialize :: "zmuv \<Rightarrow> real list list \<Rightarrow> zmuv option" where
  "initialize s [] = Some s"
| "initialize s (ex # rest) =
     (case update s ex None of None \<Rightarrow> None | Some s' \<Rightarrow> initialize s' rest)"

text \<open>\<open>std\<close>: \<open>(self.mean2 - self.mean ** 2).sqrt()\<close>, with torch's square root.\<close>

definition radicand :: "zmuv \<Rightarrow> real" where
  "radicand s = mean2 s - (mean s)\<^sup>2"

definition std :: "zmuv \<Rightarrow> py_error + tval" where
  "std s = Inr (if radicand s < 0 then NaN else Num (sqrt (radicand s)))"

text \<open>The quotient of two real numbers as torch computes it, and \<open>forward\<close>.\<close>

definition tdiv :: "real \<Rightarrow> real \<Rightarrow> tval" where
  "tdiv a d = (if d \<noteq> 0 then Num (a / d) else if 0 < a then PosInf else if a < 0 then NegInf else NaN)"

definition forward :: "zmuv \<Rightarrow> real list \<Rightarrow> py_error + tval list" where
  "forward s x =
     (case std s of
        Inl e \<Rightarrow> Inl e
      | Inr (Num d) \<Rightarrow> Inr (map (\<lambda>v. tdiv (v - mean s) d) x)
      | Inr other \<Rightarrow> Inr (map (\<lambda>v. NaN) x))"

text \<open>The statistics are consistent: the count is not negative and \<open>mean2 \<ge> mean\<^sup>2\<close>.\<close>

definition stats_ok :: "zmuv \<Rightarrow> bool" where
  "stats_ok s = (0 \<le> total_n s \<and> (mean s)\<^sup>2 \<le> mean2 s)"

text \<open>
  The same unmasked \<open>update\<close> and \<open>std\<close> with the rounding of the \<open>float32\<close> tensors
  that hold \<open>total\<close>, \<open>mean\<close> and \<open>mean2\<close>: each operation rounds its result.  The
  element count is an integer that the addition converts to \<open>float32\<close>.  \<open>sum32\<close> adds
  from left to right; the order in which torch adds is its own.
\<close>

definition sum32 :: "real list \<Rightarrow> real" where
  "sum32 xs = foldl (\<lambda>acc x. f32 (acc + x)) 0 xs"

definition update32 :: "zmuv \<Rightarrow> real list \<Rightarrow> zmuv option" where
  "update32 s data =
     (let mask_size = f32 (real (length data));
          denom = f32 (total_n s + mask_size)
      in if denom = 0 then None
         else Some \<lparr>total_n = denom,
                    mean = f32 (f32 (sum32 data + f32 (mean s * total_n s)) / denom),
                    mean2 = f32 (f32 (sum32 (map (\<lambda>x. f32 (x * x)) data)
                                       + f32 (mean2 s * total_n s)) / denom)\<rparr>)"

definition std32 :: "zmuv \<Rightarrow> py_error + tval" where
  "std32 s =
     (let r = f32 (mean2 s - f32 (mean s * mean s))
      in Inr (if r < 0 then NaN else Num (f32 (sqrt r))))"

section \<open>ww4ff/data/transform/base.py: batchify\<close>

text \<open>
  An example is a clip: its waveform \<open>audio_data\<close>, a tensor of one dimension given by
  its samples, and its \<open>frame_labels\<close>, the dictionary from end time in milliseconds to
  label index, in insertion order.  \<open>ClassificationBatch\<close> is built from the audio
  tensor (one row per example), the label tensor if any, and the lengths.
\<close>

record example =
  audio_data :: "real list"
  frame_labels :: "(real \<times> int) list"

record classification_batch =
  audio_tensor :: "real list list"
  labels_tensor :: "int list option"
  lengths :: "nat list"

text \<open>
  \<open>x.squeeze()\<close> drops every dimension of size 1: a waveform of exactly one sample
  becomes a tensor of no dimension, any other waveform is unchanged.  \<open>torch.cat\<close>
  refuses a tensor of no dimension with \<open>RuntimeError\<close>; otherwise
  \<open>torch.cat((x, torch.zeros(k)), -1)\<close> appends \<open>k\<close> zeros.
\<close>

datatype tensor = Scalar real | Vec "real list"

definition squeeze :: "real list \<Rightarrow> tensor" where
  "squeeze x = (case x of [v] \<Rightarrow> Scalar v | _ \<Rightarrow> Vec x)"

fun cat_zeros :: "tensor \<Rightarrow> nat \<Rightarrow> py_error + real list" where
  "cat_zeros (Scalar v) k = Inl RuntimeError"
| "cat_zeros (Vec x) k = Inr (x @ replicate k 0)"

text \<open>\<open>max\<close> over a generator: \<open>ValueError\<close> when it is empty.\<close>

fun maximum :: "nat list \<Rightarrow> py_error + nat" where
  "maximum [] = Inl ValueError"
| "maximum (x # xs) = Inr (fold max xs x)"

text \<open>The list comprehension that pads each waveform; the first failure ends it.\<close>

fun pad_all :: "nat \<Rightarrow> example list \<Rightarrow> py_error + real list list" where
  "pad_all max_length [] = Inr []"
| "pad_all max_length (ex # rest) =
     (case cat_zeros (squeeze (audio_data ex)) (max_length - length (audio_data ex)) of
        Inl e \<Rightarrow> Inl e
      | Inr row \<Rightarrow> (case pad_all max_length rest of Inl e \<Rightarrow> Inl e | Inr rows \<Rightarrow> Inr (row # rows)))"

text \<open>
  \<open>sorted(examples, key=..., reverse=True)\<close>: by length, longest first; examples of equal
  length keep their order, as they do in a stable sort by the negated length.
\<close>

definition sorted_desc :: "example list \<Rightarrow> example list" where
  "sorted_desc examples = sort_key (\<lambda>x. - int (length (audio_data x))) examples"

definition batchify :: "example list \<Rightarrow> py_error + classification_batch" where
  "batchify examples =
     (let examples = sorted_desc examples;
          lengths = map (\<lambda>ex. length (audio_data ex)) examples
      in case maximum lengths of
           Inl e \<Rightarrow> Inl e
         | Inr max_length \<Rightarrow>
             (case pad_all max_length examples of
                Inl e \<Rightarrow> Inl e
              | Inr rows \<Rightarrow> Inr \<lparr>audio_tensor = rows, labels_tensor = None, lengths = lengths\<rparr>))"

section \<open>ww4ff/data/transform/base.py: the negative path of WakeWordBatchifier\<close>

record wake_word_batchifier =
  negative_label :: int
  positive_sample_prob :: real
  window_size_ms :: int
  sample_rate :: int
  positive_delta_ms :: int

text \<open>
  Lines 103 to 105: one interval around each element of \<open>frame_labels.values()\<close>, which
  are the label indices of the dictionary, sorted by their start.
\<close>

definition positive_intervals :: "wake_word_batchifier \<Rightarrow> example \<Rightarrow> (int \<times> int) list" where
  "positive_intervals cfg ex =
     sort_key fst (map (\<lambda>v. (v - positive_delta_ms cfg, v + positive_delta_ms cfg))
                       (map snd (frame_labels ex)))"

text \<open>Lines 107 to 111: the loop that collects the gaps before each positive interval.\<close>

fun gaps :: "int \<Rightarrow> (int \<times> int) list \<Rightarrow> (int \<times> int) list" where
  "gaps last_positive [] = []"
| "gaps last_positive ((a, b) # rest) =
     (if last_positive < a then [(last_positive, a)] else []) @ gaps b rest"

text \<open>
  Line 112 appends the interval from the end of the last positive interval to the
  duration \<open>int(len(ex.audio_data) / 16000 * 1000)\<close>: a division and a multiplication
  of Python floats, each rounded, then the integer part.  The loop variable \<open>b\<close> is unbound when there is no positive interval.
\<close>

definition negative_intervals ::
  "wake_word_batchifier \<Rightarrow> example \<Rightarrow> py_error + (int \<times> int) list" where
  "negative_intervals cfg ex =
     (let pis = positive_intervals cfg ex
      in if pis = [] then Inl UnboundLocalError
         else Inr (gaps 0 pis @
                   [(snd (last pis),
                     \<lfloor>f64 (f64 (real (length (audio_data ex)) / 16000) * 1000)\<rfloor>)]))"

text \<open>
  \<open>xs[a:b]\<close>: a negative bound counts from the end, and both bounds are clamped to the
  list.
\<close>

definition py_slice :: "'a list \<Rightarrow> int \<Rightarrow> int \<Rightarrow> 'a list" where
  "py_slice xs a b =
     (let n = int (length xs);
          lo = (if a < 0 then max (a + n) 0 else min a n);
          hi = (if b < 0 then max (b + n) 0 else min b n)
      in take (nat (hi - lo)) (drop (nat lo) xs))"

text \<open>
  Lines 113 to 116.  The random draws are arguments: \<open>pick\<close> is the index that
  \<open>random.choice\<close> selects among the negative intervals, and \<open>r\<close> is the value of
  \<open>random.randint(0, int(b - self.window_size_ms))\<close>, any integer from 0 to
  \<open>b - window_size_ms\<close>; \<open>randint\<close> raises \<open>ValueError\<close> when that range is empty.
  An index outside the list is no draw of \<open>random.choice\<close>; the model answers it with
  \<open>IndexError\<close>.
\<close>

definition negative_span ::
  "wake_word_batchifier \<Rightarrow> example \<Rightarrow> nat \<Rightarrow> int \<Rightarrow> py_error + int \<times> int" where
  "negative_span cfg ex pick r =
     (case negative_intervals cfg ex of
        Inl e \<Rightarrow> Inl e
      | Inr ivs \<Rightarrow>
          if length ivs \<le> pick then Inl IndexError
          else
            (let (a, b) = ivs ! pick
             in if b - a > window_size_ms cfg
                then (if b - window_size_ms cfg < 0 then Inl ValueError
                      else Inr (r, r + window_size_ms cfg))
                else Inr (a, b)))"

text \<open>Line 117: the emitted pair of label and clip.\<close>

definition negative_example ::
  "wake_word_batchifier \<Rightarrow> example \<Rightarrow> nat \<Rightarrow> int \<Rightarrow> py_error + int \<times> example" where
  "negative_example cfg ex pick r =
     (case negative_span cfg ex pick r of
        Inl e \<Rightarrow> Inl e
      | Inr (a, b) \<Rightarrow> Inr (negative_label cfg, ex\<lparr>audio_data := py_slice (audio_data ex) a b\<rparr>))"

section \<open>Example values\<close>

text \<open>An engine without state that never detects anything, and one that always does.\<close>

definition quiet_infer :: "unit \<Rightarrow> real list \<Rightarrow> bool \<times> unit" where
  "quiet_infer e inp = (False, ())"

definition eager_infer :: "unit \<Rightarrow> real list \<Rightarrow> bool \<times> unit" where
  "eager_infer e inp = (True, ())"

definition no_sequence :: "unit \<Rightarrow> int list" where
  "no_sequence e = []"

definition hey_sequence :: "unit \<Rightarrow> int list" where
  "hey_sequence e = [0, 1]"

definition fresh_client :: "unit howl_client" where
  "fresh_client = \<lparr>listeners = [], chunk_size = 500, device = Cpu, engine = Some (),
                    ctx = Some [''hey'', ''fire fox''], audio_buf = [], last_data = []\<rparr>"

definition full_client :: "unit howl_client" where
  "full_client = fresh_client\<lparr>audio_buf := replicate 15 [1, 2]\<rparr>"

definition listening_client :: "unit howl_client" where
  "listening_client = add_listener (add_listener full_client 7) 8"

definition unset_client :: "unit howl_client" where
  "unset_client = fresh_client\<lparr>engine := None\<rparr>"

definition fresh_demo :: "unit inference_client" where
  "fresh_demo = \<lparr>d_engine = (), d_chunk_size = 500, d_words = [''hey'', ''fire fox''],
                  d_audio_buf = [], d_last_data = []\<rparr>"

definition bad_stats :: zmuv where
  "bad_stats = \<lparr>total_n = 1, mean = 1, mean2 = 0\<rparr>"

definition good_stats :: zmuv where
  "good_stats = \<lparr>total_n = 3, mean = 2, mean2 = 5\<rparr>"

definition clip :: "nat \<Rightarrow> example" where
  "clip n = \<lparr>audio_data = replicate n 1, frame_labels = []\<rparr>"

definition wake_cfg :: wake_word_batchifier where
  "wake_cfg = \<lparr>negative_label = 0, positive_sample_prob = 1 / 2, window_size_ms = 500,
               sample_rate = 16000, positive_delta_ms = 150\<rparr>"

definition labelled_clip :: example where
  "labelled_clip = \<lparr>audio_data = replicate 48000 0, frame_labels = [(800, 1)]\<rparr>"

section \<open>The sliding window of the two handlers\<close>

text \<open>The body of the client's handler, for a call that reaches it.\<close>

lemma on_audio_buf:
  "audio_buf (fst (on_audio infer sequ en c x)) =
     (if length (audio_buf c) = 15 then drop 2 (audio_buf c @ [x]) else audio_buf c @ [x])"
  by (auto simp: on_audio_def Let_def split: option.splits prod.splits sum.splits)

lemma on_audio_calls:
  "engine c \<noteq> None \<Longrightarrow> infer_calls (fst (snd (on_audio infer sequ en c x))) =
     (if length (audio_buf c) = 15 then 1 else 0)"
  by (auto simp: on_audio_def Let_def infer_calls_def comp_def
           split: option.splits prod.splits sum.splits)

text \<open>The demo's handler.\<close>

lemma demo_on_audio_buf:
  "d_audio_buf (fst (demo_on_audio infer sequ d x)) =
     (if length (d_audio_buf d) = 15 then drop 2 (d_audio_buf d @ [x]) else d_audio_buf d @ [x])"
  by (auto simp: demo_on_audio_def Let_def split: prod.splits sum.splits)

lemma demo_on_audio_calls:
  "infer_calls (fst (snd (demo_on_audio infer sequ d x))) =
     (if length (d_audio_buf d) = 15 then 1 else 0)"
  by (auto simp: demo_on_audio_def Let_def infer_calls_def split: prod.splits sum.splits)

lemma demo_delivery [simp]:
  "demo_stream_callback infer sequ d x (pyaudio_args x) = demo_on_audio infer sequ d x"
  by (simp add: pyaudio_args_def)

text \<open>Over a whole delivery sequence the demo's buffer length follows \<open>buf_step\<close>.\<close>

lemma demo_feed_buf:
  "length (d_audio_buf (fst (demo_feed infer sequ d xs))) =
     (buf_step ^^ length xs) (length (d_audio_buf d))"
proof (induction xs arbitrary: d)
  case Nil
  show ?case by simp
next
  case (Cons x xs)
  obtain d' evs out where st: "demo_on_audio infer sequ d x = (d', evs, out)"
    by (cases "demo_on_audio infer sequ d x") auto
  have b: "length (d_audio_buf d') = buf_step (length (d_audio_buf d))"
    using demo_on_audio_buf [of infer sequ d x] st by (simp split: if_splits)
  have "fst (demo_feed infer sequ d (x # xs)) = fst (demo_feed infer sequ d' xs)"
    using st by (simp split: prod.splits)
  then show ?case
    using Cons.IH [of d'] b by (simp only: length_Cons funpow_Suc_right o_apply)
qed

lemma demo_feed_calls:
  "k < length xs \<Longrightarrow>
   infer_calls (snd (demo_feed infer sequ d xs) ! k) =
     (if (buf_step ^^ k) (length (d_audio_buf d)) = 15 then 1 else 0)"
proof (induction xs arbitrary: d k)
  case Nil
  then show ?case by simp
next
  case (Cons x xs)
  obtain d' evs out where st: "demo_on_audio infer sequ d x = (d', evs, out)"
    by (cases "demo_on_audio infer sequ d x") auto
  have b: "length (d_audio_buf d') = buf_step (length (d_audio_buf d))"
    using demo_on_audio_buf [of infer sequ d x] st by (simp split: if_splits)
  have n: "infer_calls evs = (if length (d_audio_buf d) = 15 then 1 else 0)"
    using demo_on_audio_calls [of infer sequ d x] st by simp
  have s: "snd (demo_feed infer sequ d (x # xs)) = evs # snd (demo_feed infer sequ d' xs)"
    using st by (simp split: prod.splits)
  show ?case
  proof (cases k)
    case 0
    then show ?thesis using s n by simp
  next
    case (Suc j)
    then have "j < length xs" using Cons.prems by simp
    from Cons.IH [OF this] show ?thesis
      using s b Suc by (simp only: nth_Cons_Suc funpow_Suc_right o_apply)
  qed
qed

lemma buf_step_closed: "(buf_step ^^ n) 0 = (if n < 16 then n else 14 + n mod 2)"
proof (induction n)
  case 0
  show ?case by simp
next
  case (Suc n)
  then show ?case by (simp split: if_splits) presburger
qed

lemma buf_step_fires: "(buf_step ^^ k) 0 = 15 \<longleftrightarrow> 16 \<le> Suc k \<and> even (Suc k)"
  unfolding buf_step_closed by (simp split: if_splits) presburger

text \<open>
  In the demo, from an empty buffer and for every delivery sequence \<open>xs\<close>: the handler
  calls the engine exactly when the appended buffer holds 16 chunks and then keeps the
  newest 14; the buffer holds 15 entries after the 17th chunk, and the \<open>k+1\<close>-th delivery
  makes one inference call when \<open>k+1\<close> is 16, 18, 20, ... and none otherwise.
\<close>

lemma demo_window_cadence:
  assumes "d_audio_buf d0 = []"
  shows
    "(infer_calls (fst (snd (demo_on_audio infer sequ d x))) =
        (if length (d_audio_buf d @ [x]) = 16 then 1 else 0))
     \<and> (length (d_audio_buf d @ [x]) = 16 \<longrightarrow>
          d_audio_buf (fst (demo_on_audio infer sequ d x)) = drop 2 (d_audio_buf d @ [x])
          \<and> length (d_audio_buf (fst (demo_on_audio infer sequ d x))) = 14)
     \<and> (length (d_audio_buf d @ [x]) \<noteq> 16 \<longrightarrow>
          d_audio_buf (fst (demo_on_audio infer sequ d x)) = d_audio_buf d @ [x])
     \<and> length (d_audio_buf (fst (demo_feed infer sequ d0 xs))) =
          (if length xs < 16 then length xs else 14 + length xs mod 2)
     \<and> (\<forall>k < length xs. infer_calls (snd (demo_feed infer sequ d0 xs) ! k) =
          (if 16 \<le> Suc k \<and> even (Suc k) then 1 else 0))"
proof -
  have d1: "infer_calls (fst (snd (demo_on_audio infer sequ d x))) =
        (if length (d_audio_buf d @ [x]) = 16 then 1 else 0)"
    using demo_on_audio_calls [of infer sequ d x] by simp
  have d2: "length (d_audio_buf d @ [x]) = 16 \<longrightarrow>
          d_audio_buf (fst (demo_on_audio infer sequ d x)) = drop 2 (d_audio_buf d @ [x])
          \<and> length (d_audio_buf (fst (demo_on_audio infer sequ d x))) = 14"
    using demo_on_audio_buf [of infer sequ d x] by simp
  have d3: "length (d_audio_buf d @ [x]) \<noteq> 16 \<longrightarrow>
          d_audio_buf (fst (demo_on_audio infer sequ d x)) = d_audio_buf d @ [x]"
    using demo_on_audio_buf [of infer sequ d x] by simp
  have r3: "length (d_audio_buf (fst (demo_feed infer sequ d0 xs))) =
          (if length xs < 16 then length xs else 14 + length xs mod 2)"
    using demo_feed_buf [of infer sequ d0 xs] assms by (simp only: list.size buf_step_closed)
  have r4: "\<forall>k < length xs. infer_calls (snd (demo_feed infer sequ d0 xs) ! k) =
          (if 16 \<le> Suc k \<and> even (Suc k) then 1 else 0)"
    using demo_feed_calls [of _ xs infer sequ d0] assms
    by (simp only: list.size buf_step_fires) simp
  show ?thesis
    using d1 d2 d3 r3 r4 by (intro conjI)
qed

lemma demo_window_example:
  "length (d_audio_buf fresh_demo @ [[3, 4]]) \<noteq> 16
   \<and> d_audio_buf (fst (demo_on_audio quiet_infer no_sequence fresh_demo [3, 4])) = [[3, 4]]
   \<and> length (d_audio_buf (fst (demo_feed quiet_infer no_sequence fresh_demo (replicate 17 [])))) = 15
   \<and> map (\<lambda>k. infer_calls (snd (demo_feed quiet_infer no_sequence fresh_demo (replicate 18 [])) ! k))
         [14, 15, 16, 17] = [0, 1, 0, 1]"
proof -
  have h: "d_audio_buf fresh_demo = []" by (simp add: fresh_demo_def)
  note a = demo_window_cadence [OF h, where infer = quiet_infer and sequ = no_sequence
      and x = "[3, 4]" and d = fresh_demo and xs = "replicate 17 []"]
  note b = demo_window_cadence [OF h, where infer = quiet_infer and sequ = no_sequence
      and x = "[3, 4]" and d = fresh_demo and xs = "replicate 18 []"]
  have d: "\<forall>k<18. infer_calls (snd (demo_feed quiet_infer no_sequence fresh_demo (replicate 18 [])) ! k)
       = (if 16 \<le> Suc k \<and> even (Suc k) then 1 else 0)"
    using b by simp
  have e: "length (d_audio_buf fresh_demo @ [[3, 4]]) \<noteq> 16"
    by (simp add: fresh_demo_def)
  show ?thesis
    using a d e by (simp add: fresh_demo_def)
qed

text \<open>
  Claim C1, as the code has it.  Every chunk that PyAudio delivers to a \<open>HowlClient\<close>
  raises \<open>TypeError\<close> in the call of the stream callback, before the chunk is appended:
  for every delivery sequence the client is unchanged, its buffer never reaches 16
  chunks, and no delivery makes an inference call.  Only the demo's handler, which
  declares the four parameters, has the cadence of the claim.
\<close>

theorem client_delivery_raises:
  "stream_callback infer sequ en c x (pyaudio_args x) = (c, [], Inl TypeError)
   \<and> feed infer sequ en c xs = (c, replicate (length xs) [])"
proof -
  have one: "stream_callback infer sequ en c' y (pyaudio_args y) = (c', [], Inl TypeError)"
    for c' :: "'a howl_client" and y
    by (simp add: pyaudio_args_def)
  have "feed infer sequ en c xs = (c, replicate (length xs) [])"
    by (induction xs) (simp_all add: one)
  with one show ?thesis by simp
qed

section \<open>Starting the client\<close>

text \<open>
  Claim C4.  For every client whose engine is unset or whose context is unset, \<open>start\<close>
  raises the configuration error (\<open>AttributeError\<close>) at once: no event has happened, so
  no audio device was enumerated and no stream was opened.
\<close>

theorem start_unset_raises:
  "engine c = None \<or> ctx c = None \<Longrightarrow> start c names = ([], Inl AttributeError)"
  by (auto simp: start_def)

theorem start_unset_raises_witness:
  "(engine unset_client = None \<or> ctx unset_client = None)
   \<and> start unset_client [''hw:0'', ''pulse''] = ([], Inl AttributeError)"
  using start_unset_raises [of unset_client "[''hw:0'', ''pulse'']"]
  by (simp add: unset_client_def)

section \<open>Constructing the client\<close>

text \<open>
  Claim C3, as the code has it.  For every device argument \<open>d\<close> the constructor raises
  \<open>TypeError\<close> in \<open>self._get_device(device)\<close>, before \<open>pyaudio.PyAudio()\<close> is reached: no
  client is built, for \<open>d = -1\<close> as for any other value.
\<close>

theorem init_raises: "init eng context d csize = ([], Inl TypeError)"
  by (simp add: init_def)

section \<open>Detections in the client\<close>

lemma phrase_of_example: "phrase_of [''hey'', ''fire fox''] [0, 1] = Inr ''Hey Fire Fox''"
  by code_simp

text \<open>
  Claim C2, as the code has it.  The client \<open>listening_client\<close> has the listeners 7 and 8
  and 15 chunks in its buffer; the engine reports a detection with the sequence \<open>[0, 1]\<close>.
  With the root logger enabled for INFO the handler raises \<open>TypeError\<close> in
  \<open>logging.info\<close> and calls no listener.  With it disabled both listeners are called in
  registration order with the raw sequence, and nothing is logged.
\<close>

theorem detection_log_raises:
  "snd (on_audio eager_infer hey_sequence True listening_client [3, 4]) =
     ([Infer (normalise (concat (replicate 15 [1, 2]) @ [3, 4]))], Inl TypeError)
   \<and> snd (on_audio eager_infer hey_sequence False listening_client [3, 4]) =
     ([Infer (normalise (concat (replicate 15 [1, 2]) @ [3, 4])), Call 7 [0, 1], Call 8 [0, 1]],
      Inr ([3, 4], paContinue))"
  by (simp add: on_audio_def listening_client_def add_listener_def full_client_def fresh_client_def
      eager_infer_def hey_sequence_def client_phrase_def phrase_of_def getitem_def Let_def)

section \<open>The running statistics\<close>

lemma sum_list_replicate_real: "sum_list (replicate n (v::real)) = real n * v"
  by (induction n) (simp_all add: algebra_simps)

text \<open>
  Five equal summands can be added in three shapes of tree.  For the \<open>float32\<close> nearest
  to 0.7 and for its rounded square all three give the same sum.
\<close>

lemma five_sums_agree:
  "f32 (f32 (f32 (f32 (11744051 / 16777216 + 11744051 / 16777216) + 11744051 / 16777216) + 11744051 / 16777216) + 11744051 / 16777216) = 7 / 2
   \<and> f32 (f32 (f32 (11744051 / 16777216 + 11744051 / 16777216) + f32 (11744051 / 16777216 + 11744051 / 16777216)) + 11744051 / 16777216) = 7 / 2
   \<and> f32 (f32 (f32 (11744051 / 16777216 + 11744051 / 16777216) + 11744051 / 16777216) + f32 (11744051 / 16777216 + 11744051 / 16777216)) = 7 / 2
   \<and> f32 (f32 (f32 (f32 (16441671 / 33554432 + 16441671 / 33554432) + 16441671 / 33554432) + 16441671 / 33554432) + 16441671 / 33554432) = 2569011 / 1048576
   \<and> f32 (f32 (f32 (16441671 / 33554432 + 16441671 / 33554432) + f32 (16441671 / 33554432 + 16441671 / 33554432)) + 16441671 / 33554432) = 2569011 / 1048576
   \<and> f32 (f32 (f32 (16441671 / 33554432 + 16441671 / 33554432) + 16441671 / 33554432) + f32 (16441671 / 33554432 + 16441671 / 33554432)) = 2569011 / 1048576"
proof -
  have a: "f32 (f32 (f32 (f32 (11744051 / 16777216 + 11744051 / 16777216) + 11744051 / 16777216) + 11744051 / 16777216) + 11744051 / 16777216) = 7 / 2"
    by code_simp
  have b: "f32 (f32 (f32 (11744051 / 16777216 + 11744051 / 16777216) + f32 (11744051 / 16777216 + 11744051 / 16777216)) + 11744051 / 16777216) = 7 / 2"
    by code_simp
  have c: "f32 (f32 (f32 (11744051 / 16777216 + 11744051 / 16777216) + 11744051 / 16777216) + f32 (11744051 / 16777216 + 11744051 / 16777216)) = 7 / 2"
    by code_simp
  have d: "f32 (f32 (f32 (f32 (16441671 / 33554432 + 16441671 / 33554432) + 16441671 / 33554432) + 16441671 / 33554432) + 16441671 / 33554432) = 2569011 / 1048576"
    by code_simp
  have e: "f32 (f32 (f32 (16441671 / 33554432 + 16441671 / 33554432) + f32 (16441671 / 33554432 + 16441671 / 33554432)) + 16441671 / 33554432) = 2569011 / 1048576"
    by code_simp
  have f: "f32 (f32 (f32 (16441671 / 33554432 + 16441671 / 33554432) + 16441671 / 33554432) + f32 (16441671 / 33554432 + 16441671 / 33554432)) = 2569011 / 1048576"
    by code_simp
  show ?thesis using a b c d e f by (intro conjI)
qed

text \<open>
  The claim C5 as stated fails in the \<open>float32\<close> arithmetic of the tensors.  The value
  \<open>11744051 / 2 ^ 24\<close> is the \<open>float32\<close> nearest to 0.7, and \<open>16441671 / 2 ^ 25\<close> is its
  rounded square.  The first update by 5 copies of it yields that \<open>mean\<close>, but a \<open>mean2\<close>
  below the rounded square of the mean: the radicand is negative and \<open>std\<close> is \<open>nan\<close>,
  not 0.  The five equal summands give the same sums in every order of addition.
\<close>

theorem update_float32_counterexample:
  "f32 (11744051 / 16777216) = 11744051 / 16777216
   \<and> f32 (11744051 / 16777216 * (11744051 / 16777216)) = 16441671 / 33554432
   \<and> update32 zmuv_init (replicate 5 (11744051 / 16777216)) =
       Some \<lparr>total_n = 5, mean = 11744051 / 16777216, mean2 = 8220835 / 16777216\<rparr>
   \<and> std32 \<lparr>total_n = 5, mean = 11744051 / 16777216, mean2 = 8220835 / 16777216\<rparr> = Inr NaN"
proof -
  have v: "f32 (11744051 / 16777216) = 11744051 / 16777216"
    by code_simp
  have q: "f32 (11744051 / 16777216 * (11744051 / 16777216)) = 16441671 / 33554432"
    by code_simp
  have u: "update32 zmuv_init (replicate 5 (11744051 / 16777216)) =
       Some \<lparr>total_n = 5, mean = 11744051 / 16777216, mean2 = 8220835 / 16777216\<rparr>"
    by code_simp
  have r: "f32 (mean2 \<lparr>total_n = 5, mean = 11744051 / 16777216, mean2 = 8220835 / 16777216\<rparr>
                - f32 (mean \<lparr>total_n = 5, mean = 11744051 / 16777216, mean2 = 8220835 / 16777216\<rparr>
                       * mean \<lparr>total_n = 5, mean = 11744051 / 16777216,
                                mean2 = 8220835 / 16777216\<rparr>))
           = - 1 / 33554432"
    by code_simp
  have n: "std32 \<lparr>total_n = 5, mean = 11744051 / 16777216, mean2 = 8220835 / 16777216\<rparr> =
      Inr NaN"
    by (simp only: std32_def Let_def r) simp
  show ?thesis using v q u n by (intro conjI)
qed

text \<open>
  Claim C5, amended.  In exact arithmetic, for every positive \<open>N\<close> and value \<open>v\<close>, an
  unmasked \<open>update\<close> of statistics with \<open>total = 0\<close> by \<open>N\<close> copies of \<open>v\<close> yields
  \<open>mean = v\<close>, \<open>mean2 = v\<^sup>2\<close>, \<open>total = N\<close> and \<open>std = 0\<close>.
\<close>

theorem update_first_identical:
  assumes "0 < N" and "total_n s = 0"
  shows "\<exists>s'. update s (replicate N v) None = Some s' \<and> mean s' = v \<and> mean2 s' = v\<^sup>2
           \<and> total_n s' = real N \<and> std s' = Inr (Num 0)"
  using assms by (simp add: update_def std_def radicand_def sum_list_replicate_real)

theorem update_first_identical_witness:
  "0 < (3::nat) \<and> total_n zmuv_init = 0
   \<and> (\<exists>s'. update zmuv_init (replicate 3 2) None = Some s' \<and> mean s' = 2 \<and> mean2 s' = 2\<^sup>2
           \<and> total_n s' = real 3 \<and> std s' = Inr (Num 0))"
  using update_first_identical [of 3 zmuv_init 2] by (simp add: zmuv_init_def)

lemma update_unmasked:
  "total_n s + real (length xs) \<noteq> 0 \<Longrightarrow>
   update s xs None =
     Some \<lparr>total_n = total_n s + real (length xs),
           mean = (sum_list xs + mean s * total_n s) / (total_n s + real (length xs)),
           mean2 = (sum_list (map (\<lambda>x. x\<^sup>2) xs) + mean2 s * total_n s)
                     / (total_n s + real (length xs))\<rparr>"
  by (simp add: update_def)

text \<open>
  Claim C6.  For non-empty tensors \<open>A\<close> and \<open>B\<close> and every starting state whose count is
  not negative, an unmasked \<open>update\<close> by \<open>A\<close> and then by \<open>B\<close> yields the same \<open>mean\<close>,
  \<open>mean2\<close> (and \<open>total\<close>) as one unmasked \<open>update\<close> by the concatenation of \<open>A\<close> and \<open>B\<close>,
  in exact arithmetic.
\<close>

theorem update_concat:
  assumes "0 \<le> total_n s" and "A \<noteq> []" and "B \<noteq> []"
  shows "\<exists>s1 s2 s12. update s A None = Some s1 \<and> update s1 B None = Some s2
            \<and> update s (A @ B) None = Some s12
            \<and> mean s2 = mean s12 \<and> mean2 s2 = mean2 s12 \<and> total_n s2 = total_n s12"
proof -
  define t1 where "t1 = total_n s + real (length A)"
  define s1 where "s1 = \<lparr>total_n = t1, mean = (sum_list A + mean s * total_n s) / t1,
           mean2 = (sum_list (map (\<lambda>x. x\<^sup>2) A) + mean2 s * total_n s) / t1\<rparr>"
  have a: "0 < t1" using assms by (cases A) (auto simp: t1_def)
  then have b: "0 < t1 + real (length B)" by simp
  have u1: "update s A None = Some s1"
    using a update_unmasked [of s A] by (simp add: t1_def s1_def)
  have n1: "total_n s1 + real (length B) \<noteq> 0" using b by (simp add: s1_def)
  have n12: "total_n s + real (length (A @ B)) \<noteq> 0" using b by (simp add: t1_def)
  have t12: "total_n s + real (length (A @ B)) = t1 + real (length B)" by (simp add: t1_def)
  have m1: "mean s1 * total_n s1 = sum_list A + mean s * total_n s"
    using a by (simp add: s1_def)
  have m2: "mean2 s1 * total_n s1 = sum_list (map (\<lambda>x. x\<^sup>2) A) + mean2 s * total_n s"
    using a by (simp add: s1_def)
  have e1: "mean (the (update s1 B None)) = mean (the (update s (A @ B) None))"
    unfolding update_unmasked [OF n1] update_unmasked [OF n12] t12 m1
    by (simp add: s1_def add.assoc add.left_commute)
  have e2: "mean2 (the (update s1 B None)) = mean2 (the (update s (A @ B) None))"
    unfolding update_unmasked [OF n1] update_unmasked [OF n12] t12 m2
    by (simp add: s1_def add.assoc add.left_commute)
  have e3: "total_n (the (update s1 B None)) = total_n (the (update s (A @ B) None))"
    unfolding update_unmasked [OF n1] update_unmasked [OF n12] t12
    by (simp add: s1_def)
  have x1: "update s1 B None = Some (the (update s1 B None))"
    unfolding update_unmasked [OF n1] by simp
  have x2: "update s (A @ B) None = Some (the (update s (A @ B) None))"
    unfolding update_unmasked [OF n12] by simp
  show ?thesis using u1 x1 x2 e1 e2 e3 by blast
qed

theorem update_concat_witness:
  "0 \<le> total_n zmuv_init \<and> [1, 2] \<noteq> ([] :: real list) \<and> [3] \<noteq> ([] :: real list)
   \<and> (\<exists>s1 s2 s12. update zmuv_init [1, 2] None = Some s1 \<and> update s1 [3] None = Some s2
            \<and> update zmuv_init ([1, 2] @ [3]) None = Some s12
            \<and> mean s2 = mean s12 \<and> mean2 s2 = mean2 s12 \<and> total_n s2 = total_n s12)"
  using update_concat [of zmuv_init "[1, 2]" "[3]"] by (simp add: zmuv_init_def)

text \<open>
  Claim C7, as the code has it.  For every state with a negative radicand
  \<open>mean2 - mean\<^sup>2\<close>, reading \<open>std\<close> raises nothing: it returns \<open>nan\<close>, and \<open>forward\<close> then
  returns \<open>nan\<close> in every position.  Nothing is clamped.  \<open>std\<close> is no field of the state:
  with a radicand that is not negative it is computed as \<open>sqrt (mean2 - mean\<^sup>2)\<close> at each
  read.
\<close>

theorem std_negative_is_nan:
  "(radicand s < 0 \<longrightarrow> std s = Inr NaN \<and> forward s x = Inr (map (\<lambda>v. NaN) x))
   \<and> (0 \<le> radicand s \<longrightarrow> std s = Inr (Num (sqrt (mean2 s - (mean s)\<^sup>2))))"
  by (simp add: std_def forward_def radicand_def)

theorem std_negative_is_nan_witness:
  "radicand bad_stats < 0 \<and> std bad_stats = Inr NaN \<and> forward bad_stats [1, 5] = Inr [NaN, NaN]
   \<and> 0 \<le> radicand good_stats \<and> std good_stats = Inr (Num 1)"
  using std_negative_is_nan [of bad_stats "[1, 5]"] std_negative_is_nan [of good_stats "[]"]
  by (simp add: bad_stats_def good_stats_def radicand_def)

text \<open>
  The claim C7 as stated fails at \<open>bad_stats\<close>: the radicand is \<open>-1\<close> and \<open>std\<close> returns
  a value.
\<close>

theorem std_raises_counterexample:
  "radicand bad_stats < 0 \<and> std bad_stats = Inr NaN"
  by (simp add: bad_stats_def radicand_def std_def)

lemma sum_sq_shift:
  "sum_list (map (\<lambda>x. (x - m)\<^sup>2) xs) =
     sum_list (map (\<lambda>x. x\<^sup>2) xs) - 2 * m * sum_list xs + real (length xs) * m\<^sup>2"
  by (induction xs) (simp_all add: algebra_simps power2_eq_square)

lemma sum_sq_nonneg: "0 \<le> sum_list (map (\<lambda>x. (x - m)\<^sup>2) (xs :: real list))"
  by (induction xs) simp_all

lemma cross_bound:
  "2 * m * sum_list xs \<le> sum_list (map (\<lambda>x. x\<^sup>2) xs) + real (length xs) * m\<^sup>2"
  using sum_sq_nonneg [of m xs] by (simp add: sum_sq_shift)

lemma square_sum_bound:
  "(sum_list xs)\<^sup>2 \<le> real (length xs) * sum_list (map (\<lambda>x. x\<^sup>2) xs)"
proof (cases "xs = []")
  case True
  then show ?thesis by simp
next
  case False
  then have n: "0 < real (length xs)" by simp
  let ?n = "real (length xs)" and ?S = "sum_list xs" and ?Q = "sum_list (map (\<lambda>x. x\<^sup>2) xs)"
  have "2 * (?S / ?n) * ?S \<le> ?Q + ?n * (?S / ?n)\<^sup>2"
    by (rule cross_bound)
  then have "2 * (?S / ?n) * ?S * ?n \<le> (?Q + ?n * (?S / ?n)\<^sup>2) * ?n"
    using n by (simp only: mult_le_cancel_right_pos)
  moreover have "2 * (?S / ?n) * ?S * ?n = 2 * ?S\<^sup>2" using n by (simp add: power2_eq_square)
  moreover have "(?Q + ?n * (?S / ?n)\<^sup>2) * ?n = ?Q * ?n + ?S\<^sup>2"
    using n by (simp add: power2_eq_square algebra_simps)
  ultimately show ?thesis by (simp add: mult.commute)
qed


lemma moments_bound:
  fixes t m q :: real
  assumes "0 \<le> t" and "m\<^sup>2 \<le> q"
  shows "(sum_list xs + m * t)\<^sup>2 \<le>
           (sum_list (map (\<lambda>x. x\<^sup>2) xs) + q * t) * (t + real (length xs))"
proof -
  let ?n = "real (length xs)" and ?S = "sum_list xs" and ?Q = "sum_list (map (\<lambda>x. x\<^sup>2) xs)"
  have c: "2 * m * ?S \<le> ?Q + ?n * m\<^sup>2" by (rule cross_bound)
  have d: "?S\<^sup>2 \<le> ?n * ?Q" by (rule square_sum_bound)
  have tt: "0 \<le> t * t" and tn: "0 \<le> t * ?n" using assms(1) by simp_all
  have e1: "m\<^sup>2 * (t * t) \<le> q * (t * t)" using assms(2) tt by (rule mult_right_mono)
  have e2: "m\<^sup>2 * (t * ?n) \<le> q * (t * ?n)" using assms(2) tn by (rule mult_right_mono)
  have e3: "2 * m * ?S * t \<le> (?Q + ?n * m\<^sup>2) * t" using c assms(1) by (rule mult_right_mono)
  have "(?S + m * t)\<^sup>2 = ?S\<^sup>2 + 2 * m * ?S * t + m\<^sup>2 * (t * t)"
    by (simp add: power2_eq_square algebra_simps)
  also have "\<dots> \<le> ?n * ?Q + (?Q + ?n * m\<^sup>2) * t + q * (t * t)"
    using d e3 e1 by linarith
  also have "\<dots> = ?n * ?Q + ?Q * t + m\<^sup>2 * (t * ?n) + q * (t * t)"
    by (simp add: algebra_simps)
  also have "\<dots> \<le> ?n * ?Q + ?Q * t + q * (t * ?n) + q * (t * t)"
    using e2 by linarith
  also have "\<dots> = (?Q + q * t) * (t + ?n)"
    by (simp add: algebra_simps)
  finally show ?thesis .
qed

lemma update_preserves:
  assumes "stats_ok s" and "total_n s + real (length xs) \<noteq> 0"
  shows "\<exists>s'. update s xs None = Some s' \<and> stats_ok s'"
proof -
  let ?d = "total_n s + real (length xs)"
  let ?a = "sum_list xs + mean s * total_n s"
  let ?b = "sum_list (map (\<lambda>x. x\<^sup>2) xs) + mean2 s * total_n s"
  have t: "0 \<le> total_n s" and q: "(mean s)\<^sup>2 \<le> mean2 s"
    using assms(1) by (simp_all add: stats_ok_def)
  have d: "0 < ?d" using t assms(2) by (smt (verit) of_nat_0_le_iff)
  have "?a\<^sup>2 \<le> ?b * ?d" using moments_bound [OF t q, of xs] .
  then have "?a\<^sup>2 / ?d\<^sup>2 \<le> ?b * ?d / ?d\<^sup>2"
    using d by (simp add: divide_right_mono)
  moreover have "?b * ?d / ?d\<^sup>2 = ?b / ?d" using d by (simp add: power2_eq_square)
  ultimately have "(?a / ?d)\<^sup>2 \<le> ?b / ?d" by (simp add: power_divide)
  then show ?thesis
    unfolding update_unmasked [OF assms(2)] using d by (simp add: stats_ok_def)
qed

lemma initialize_preserves:
  "stats_ok s \<Longrightarrow> initialize s xss = Some s' \<Longrightarrow> stats_ok s'"
proof (induction xss arbitrary: s)
  case Nil
  then show ?case by simp
next
  case (Cons ex rest)
  from Cons.prems(2) obtain s1 where u: "update s ex None = Some s1"
    and r: "initialize s1 rest = Some s'"
    by (auto split: option.splits)
  have "total_n s + real (length ex) \<noteq> 0"
    using u by (auto simp: update_def split: if_splits)
  with Cons.prems(1) u have "stats_ok s1" using update_preserves [of s ex] by auto
  then show ?case using r by (rule Cons.IH)
qed

lemma initialize_defined:
  "stats_ok s \<Longrightarrow> \<forall>ex \<in> set xss. ex \<noteq> [] \<Longrightarrow> \<exists>s'. initialize s xss = Some s'"
proof (induction xss arbitrary: s)
  case Nil
  then show ?case by simp
next
  case (Cons ex rest)
  have t: "0 \<le> total_n s" using Cons.prems(1) by (simp add: stats_ok_def)
  have "ex \<noteq> []" using Cons.prems(2) by simp
  then have "0 < real (length ex)" by simp
  with t have n: "total_n s + real (length ex) \<noteq> 0" by linarith
  from update_preserves [OF Cons.prems(1) n] obtain s1 where
    u: "update s ex None = Some s1" and ok: "stats_ok s1" by blast
  from Cons.IH [OF ok] Cons.prems(2) obtain s' where "initialize s1 rest = Some s'" by auto
  with u show ?case by simp
qed

lemma forward_positive:
  "0 < radicand s \<Longrightarrow>
   forward s x = Inr (map (\<lambda>v. Num ((v - mean s) / sqrt (radicand s))) x)"
  by (simp add: forward_def std_def tdiv_def)


text \<open>
  The claim C10 as stated fails in two places.  At the first update by an empty tensor
  the divisor is 0, and the statistics are no numbers afterwards.  And after an update
  by three equal values the invariant holds with radicand 0: \<open>std\<close> is 0 and \<open>forward\<close>
  divides by it, which yields \<open>inf\<close>, \<open>-inf\<close> and \<open>nan\<close>.
\<close>

theorem update_empty_counterexample:
  "stats_ok zmuv_init \<and> update zmuv_init [] None = None
   \<and> initialize zmuv_init [[2, 2, 2]] = Some \<lparr>total_n = 3, mean = 2, mean2 = 4\<rparr>
   \<and> stats_ok \<lparr>total_n = 3, mean = 2, mean2 = 4\<rparr>
   \<and> std \<lparr>total_n = 3, mean = 2, mean2 = 4\<rparr> = Inr (Num 0)
   \<and> forward \<lparr>total_n = 3, mean = 2, mean2 = 4\<rparr> [3, 1, 2] = Inr [PosInf, NegInf, NaN]"
  by (simp add: stats_ok_def zmuv_init_def update_def std_def radicand_def forward_def tdiv_def)

lemma forward_zero:
  "radicand s = 0 \<Longrightarrow>
   forward s x =
     Inr (map (\<lambda>v. if mean s < v then PosInf else if v < mean s then NegInf else NaN) x)"
  by (simp add: forward_def std_def tdiv_def)

text \<open>
  Claim C10, amended.  In exact arithmetic, \<open>mean2 \<ge> mean\<^sup>2\<close> with \<open>total \<ge> 0\<close> holds of
  the initial statistics and is preserved by every unmasked \<open>update\<close> whose divisor
  \<open>total + numel\<close> is not 0, so by every update with a non-empty tensor.  After any
  sequence of unmasked updates with non-empty tensors the radicand of \<open>std\<close> is not
  negative and \<open>std\<close> is its square root.  Where that is positive \<open>forward\<close> yields the
  real numbers \<open>(x - mean) / std\<close>; where it is 0 \<open>forward\<close> yields no real number
  but \<open>inf\<close> above the mean, \<open>-inf\<close> below it and \<open>nan\<close> at it.
\<close>

theorem stats_invariant:
  "stats_ok zmuv_init
   \<and> (stats_ok s \<and> total_n s + real (length xs) \<noteq> 0 \<longrightarrow>
        (\<exists>s'. update s xs None = Some s' \<and> stats_ok s'))
   \<and> ((\<forall>ex \<in> set xss. ex \<noteq> []) \<longrightarrow>
        (\<exists>s'. initialize zmuv_init xss = Some s' \<and> stats_ok s' \<and> 0 \<le> radicand s'
              \<and> std s' = Inr (Num (sqrt (radicand s')))
              \<and> (0 < radicand s' \<longrightarrow>
                   forward s' x = Inr (map (\<lambda>v. Num ((v - mean s') / sqrt (radicand s'))) x))
              \<and> (radicand s' = 0 \<longrightarrow>
                   forward s' x =
                     Inr (map (\<lambda>v. if mean s' < v then PosInf
                                   else if v < mean s' then NegInf else NaN) x))))"
proof -
  have i: "stats_ok zmuv_init" by (simp add: stats_ok_def zmuv_init_def)
  have u: "stats_ok s \<and> total_n s + real (length xs) \<noteq> 0 \<longrightarrow>
        (\<exists>s'. update s xs None = Some s' \<and> stats_ok s')"
    using update_preserves [of s xs] by blast
  have r: "(\<forall>ex \<in> set xss. ex \<noteq> []) \<longrightarrow>
        (\<exists>s'. initialize zmuv_init xss = Some s' \<and> stats_ok s' \<and> 0 \<le> radicand s'
              \<and> std s' = Inr (Num (sqrt (radicand s')))
              \<and> (0 < radicand s' \<longrightarrow>
                   forward s' x = Inr (map (\<lambda>v. Num ((v - mean s') / sqrt (radicand s'))) x))
              \<and> (radicand s' = 0 \<longrightarrow>
                   forward s' x =
                     Inr (map (\<lambda>v. if mean s' < v then PosInf
                                   else if v < mean s' then NegInf else NaN) x)))"
  proof
    assume ne: "\<forall>ex \<in> set xss. ex \<noteq> []"
    from initialize_defined [OF i ne] obtain s' where d: "initialize zmuv_init xss = Some s'" ..
    have ok: "stats_ok s'" using i d by (rule initialize_preserves)
    then have p: "0 \<le> radicand s'" by (simp add: stats_ok_def radicand_def)
    then have sd: "std s' = Inr (Num (sqrt (radicand s')))" by (simp add: std_def)
    show "\<exists>s'. initialize zmuv_init xss = Some s' \<and> stats_ok s' \<and> 0 \<le> radicand s'
              \<and> std s' = Inr (Num (sqrt (radicand s')))
              \<and> (0 < radicand s' \<longrightarrow>
                   forward s' x = Inr (map (\<lambda>v. Num ((v - mean s') / sqrt (radicand s'))) x))
              \<and> (radicand s' = 0 \<longrightarrow>
                   forward s' x =
                     Inr (map (\<lambda>v. if mean s' < v then PosInf
                                   else if v < mean s' then NegInf else NaN) x))"
      using d ok p sd forward_positive [of s' x] forward_zero [of s' x] by blast
  qed
  show ?thesis using i u r by (intro conjI)
qed

theorem stats_invariant_witness:
  "stats_ok zmuv_init \<and> total_n zmuv_init + real (length [1, 2 :: real]) \<noteq> 0
   \<and> (\<exists>s'. update zmuv_init [1, 2] None = Some s' \<and> stats_ok s')
   \<and> [1, 2 :: real] \<noteq> [] \<and> [3 :: real] \<noteq> []
   \<and> (\<exists>s'. initialize zmuv_init [[1, 2], [3]] = Some s' \<and> stats_ok s' \<and> 0 < radicand s'
         \<and> forward s' [2] = Inr [Num 0])"
proof -
  have e: "initialize zmuv_init [[1, 2], [3]] = Some \<lparr>total_n = 3, mean = 2, mean2 = 14 / 3\<rparr>"
    by (simp add: update_def zmuv_init_def)
  have p: "0 < radicand \<lparr>total_n = 3, mean = 2, mean2 = 14 / 3\<rparr>"
    by (simp add: radicand_def)
  have h: "\<forall>ex \<in> set [[1, 2], [3 :: real]]. ex \<noteq> []" by simp
  have n: "total_n zmuv_init + real (length [1, 2 :: real]) \<noteq> 0" by (simp add: zmuv_init_def)
  show ?thesis
    using stats_invariant [of zmuv_init "[1, 2]" "[[1, 2], [3]]" "[2]"] e p h n by auto
qed


section \<open>Assembling a batch\<close>

lemma squeeze_Vec: "length x \<noteq> 1 \<Longrightarrow> squeeze x = Vec x"
  by (auto simp: squeeze_def split: list.splits)

lemma pad_all_ok:
  "\<forall>ex \<in> set exs. length (audio_data ex) \<noteq> 1 \<Longrightarrow>
   pad_all m exs = Inr (map (\<lambda>ex. audio_data ex @ replicate (m - length (audio_data ex)) 0) exs)"
proof (induction exs)
  case Nil
  show ?case by simp
next
  case (Cons ex rest)
  then have "length (audio_data ex) \<noteq> 1" by simp
  then have "squeeze (audio_data ex) = Vec (audio_data ex)"
    by (rule squeeze_Vec)
  with Cons show ?case by simp
qed

lemma maximum_Max:
  assumes "xs \<noteq> []"
  shows "maximum xs = Inr (Max (set xs))"
proof (cases xs)
  case Nil
  with assms show ?thesis by simp
next
  case (Cons x rest)
  show ?thesis unfolding Cons maximum.simps Max.set_eq_fold ..
qed

lemma sorted_desc_mset: "mset (sorted_desc exs) = mset exs"
  by (simp add: sorted_desc_def)

lemma sorted_desc_sorted:
  "sorted_wrt (\<lambda>x y. length (audio_data y) \<le> length (audio_data x)) (sorted_desc exs)"
proof -
  have "sorted (map (\<lambda>x. - int (length (audio_data x))) (sorted_desc exs))"
    by (simp add: sorted_desc_def)
  then show ?thesis by (simp add: sorted_map)
qed

text \<open>
  Claim C8, amended.  For every non-empty sequence of examples none of whose waveforms
  has exactly one sample, \<open>batchify\<close> returns a batch built from the examples sorted by
  waveform length, longest first: the audio tensor holds each waveform followed by zeros
  up to the maximum length, one row per example and every row of that length, there is
  no label tensor, and the lengths are the lengths before padding in the sorted order.
\<close>

theorem batchify_sorted_padded:
  assumes "examples \<noteq> []" and "\<forall>ex \<in> set examples. length (audio_data ex) \<noteq> 1"
  shows "\<exists>b srt. batchify examples = Inr b
           \<and> mset srt = mset examples
           \<and> sorted_wrt (\<lambda>x y. length (audio_data y) \<le> length (audio_data x)) srt
           \<and> lengths b = map (\<lambda>ex. length (audio_data ex)) srt
           \<and> labels_tensor b = None
           \<and> audio_tensor b =
               map (\<lambda>ex. audio_data ex @
                   replicate (Max (set (map (\<lambda>ex. length (audio_data ex)) examples))
                                - length (audio_data ex)) 0) srt
           \<and> map length (audio_tensor b) =
               replicate (length examples) (Max (set (map (\<lambda>ex. length (audio_data ex)) examples)))"
proof -
  let ?srt = "sorted_desc examples"
  let ?len = "\<lambda>ex. length (audio_data ex)"
  let ?M = "Max (set (map ?len examples))"
  have s: "set ?srt = set examples" using sorted_desc_mset [of examples] by (metis set_mset_mset)
  have n: "map ?len ?srt \<noteq> []" using assms(1) s by auto
  have m: "maximum (map ?len ?srt) = Inr ?M"
    using maximum_Max [OF n] s by simp
  have p: "pad_all ?M ?srt = Inr (map (\<lambda>ex. audio_data ex @ replicate (?M - ?len ex) 0) ?srt)"
    using assms(2) s by (intro pad_all_ok) simp
  have b: "batchify examples =
      Inr \<lparr>audio_tensor = map (\<lambda>ex. audio_data ex @ replicate (?M - ?len ex) 0) ?srt,
           labels_tensor = None, lengths = map ?len ?srt\<rparr>"
    using m p by (simp add: batchify_def Let_def)
  have le: "\<forall>ex \<in> set ?srt. ?len ex \<le> ?M" using s by simp
  have l: "length ?srt = length examples"
    using sorted_desc_mset [of examples] by (metis size_mset)
  have r: "map length (map (\<lambda>ex. audio_data ex @ replicate (?M - ?len ex) 0) ?srt) =
      replicate (length examples) ?M"
  proof -
    have "map length (map (\<lambda>ex. audio_data ex @ replicate (?M - ?len ex) 0) ?srt) =
        map (\<lambda>ex. ?M) ?srt"
      using le by simp
    also have "\<dots> = replicate (length ?srt) ?M" by (rule map_replicate_const)
    finally show ?thesis using l by simp
  qed
  show ?thesis
    using b sorted_desc_mset [of examples] sorted_desc_sorted [of examples] r
    by (intro exI [of _ "\<lparr>audio_tensor = map (\<lambda>ex. audio_data ex @ replicate (?M - ?len ex) 0) ?srt,
           labels_tensor = None, lengths = map ?len ?srt\<rparr>"] exI [of _ ?srt]) simp
qed

theorem batchify_sorted_padded_witness:
  "[clip 5, clip 3, clip 8] \<noteq> []
   \<and> length (audio_data (clip 5)) \<noteq> 1 \<and> length (audio_data (clip 3)) \<noteq> 1
   \<and> length (audio_data (clip 8)) \<noteq> 1
   \<and> (\<exists>b. batchify [clip 5, clip 3, clip 8] = Inr b
          \<and> lengths b = [8, 5, 3] \<and> labels_tensor b = None
          \<and> map length (audio_tensor b) = [8, 8, 8]
          \<and> audio_tensor b =
               [replicate 8 1, replicate 5 1 @ replicate 3 0, replicate 3 1 @ replicate 5 0])"
proof -
  have h1: "[clip 5, clip 3, clip 8] \<noteq> []" by simp
  have h2: "\<forall>ex \<in> set [clip 5, clip 3, clip 8]. length (audio_data ex) \<noteq> 1"
    by (simp add: clip_def)
  from batchify_sorted_padded [OF h1 h2] obtain b where
    b: "batchify [clip 5, clip 3, clip 8] = Inr b" and l: "labels_tensor b = None"
    and r: "map length (audio_tensor b) =
      replicate (length [clip 5, clip 3, clip 8])
        (Max (set (map (\<lambda>ex. length (audio_data ex)) [clip 5, clip 3, clip 8])))"
    by blast
  have e: "batchify [clip 5, clip 3, clip 8] =
      Inr \<lparr>audio_tensor = [replicate 8 1, replicate 5 1 @ replicate 3 0,
                            replicate 3 1 @ replicate 5 0],
           labels_tensor = None, lengths = [8, 5, 3]\<rparr>"
    by (simp add: batchify_def sorted_desc_def clip_def squeeze_Vec)
  have r8: "map length (audio_tensor b) = [8, 8, 8]"
    using r by (simp add: clip_def numeral_3_eq_3)
  show ?thesis using b l r8 e by (simp add: clip_def)
qed


text \<open>
  The claim C8 as stated fails at a single example of one sample: \<open>squeeze\<close> turns the
  waveform into a tensor of no dimension, which \<open>torch.cat\<close> refuses.
\<close>

theorem batchify_one_sample_counterexample:
  "batchify [\<lparr>audio_data = [1 / 2], frame_labels = []\<rparr>] = Inl RuntimeError"
  by (simp add: batchify_def sorted_desc_def squeeze_def)

section \<open>Negative windows\<close>

text \<open>
  What the draw of line 115 does guarantee: the window has the width \<open>window_size_ms\<close>,
  starts at or after 0 and ends at or before the end of the chosen interval.
\<close>

lemma negative_span_range:
  assumes "negative_intervals cfg ex = Inr ivs" and "pick < length ivs" and "ivs ! pick = (a, b)"
    and "window_size_ms cfg < b - a" and "0 \<le> r" and "r \<le> b - window_size_ms cfg"
  shows "negative_span cfg ex pick r = Inr (r, r + window_size_ms cfg)
         \<and> r + window_size_ms cfg \<le> b"
  using assms by (simp add: negative_span_def)

lemma duration_3000: "\<lfloor>f64 (f64 3 * 1000)\<rfloor> = 3000"
  by code_simp

text \<open>
  Claim C9, as the code has it.  The clip \<open>labelled_clip\<close> lasts 3000 ms and has one label,
  index 1; its only negative interval is \<open>(151, 3000)\<close>, wider than the window of 500.  The
  draw 0 is one that \<open>randint(0, 2500)\<close> can return, and the emitted span is then
  \<open>(0, 500)\<close>: it starts before the chosen interval does.  The span is paired with the
  negative label.
\<close>

theorem negative_window_outside:
  "negative_intervals wake_cfg labelled_clip = Inr [(151, 3000)]
   \<and> negative_span wake_cfg labelled_clip 0 0 = Inr (0, 500)
   \<and> negative_example wake_cfg labelled_clip 0 0 =
       Inr (0, \<lparr>audio_data = replicate 500 0, frame_labels = [(800, 1)]\<rparr>)"
proof -
  have i: "negative_intervals wake_cfg labelled_clip = Inr [(151, 3000)]"
    by (simp add: negative_intervals_def positive_intervals_def wake_cfg_def labelled_clip_def
        duration_3000)
  have s: "negative_span wake_cfg labelled_clip 0 0 = Inr (0, 500)"
    by (simp add: negative_span_def i) (simp add: wake_cfg_def)
  have p: "py_slice (replicate 48000 (0::real)) 0 500 = replicate 500 0"
    by (simp add: py_slice_def min_def)
  have e: "negative_example wake_cfg labelled_clip 0 0 =
       Inr (0, \<lparr>audio_data = replicate 500 0, frame_labels = [(800, 1)]\<rparr>)"
    by (simp add: negative_example_def s) (simp add: labelled_clip_def wake_cfg_def p)
  show ?thesis using i s e by (intro conjI)
qed


end
